theory Spec2Isabelle
  imports Complex_Main
begin

section \<open>Pinch and wheel gesture synthesis of \<open>useDomCanvasEvents\<close>\<close>

text \<open>
  The hook installs five DOM listeners that share a handful of closure variables. Each
  listener is embedded as a function from the closure state (and the event) to the new
  state and the list of events handed to \<open>editor.dispatch\<close>, in dispatch order.
\<close>

subsection \<open>Numbers\<close>

text \<open>
  Pointer coordinates, zoom levels and distances are finite JavaScript numbers and are
  modelled as reals (exact arithmetic, one zero). The division and the exponentiation of
  the zoom formula can leave the finite numbers (\<open>x / 0\<close>, \<open>0 / 0\<close>), so their result
  is a \<open>jsnum\<close>, which adds the two infinities and NaN.
\<close>

datatype jsnum = Num real | PosInfinity | NegInfinity | NaN

definition js_div :: "real \<Rightarrow> real \<Rightarrow> jsnum" where
  \<comment> \<open>\<open>a / b\<close> on finite numbers; a zero divisor is \<open>+0\<close> (it is the result of \<open>Math.sqrt\<close>)\<close>
  "js_div a b =
     (if b \<noteq> 0 then Num (a / b)
      else if 0 < a then PosInfinity
      else if a < 0 then NegInfinity
      else NaN)"

definition is_odd_integer :: "real \<Rightarrow> bool" where
  "is_odd_integer y = (y \<in> \<int> \<and> odd \<lfloor>y\<rfloor>)"

definition js_pow :: "jsnum \<Rightarrow> real \<Rightarrow> jsnum" where
  \<comment> \<open>\<open>base ** exponent\<close> with a finite exponent\<close>
  "js_pow b y =
     (if y = 0 then Num 1
      else case b of
        NaN \<Rightarrow> NaN
      | PosInfinity \<Rightarrow> (if 0 < y then PosInfinity else Num 0)
      | NegInfinity \<Rightarrow>
          (if 0 < y then (if is_odd_integer y then NegInfinity else PosInfinity) else Num 0)
      | Num x \<Rightarrow>
          (if x = 0 then (if 0 < y then Num 0 else PosInfinity)
           else if 0 < x then Num (x powr y)
           else if y \<in> \<int> then Num (x powi \<lfloor>y\<rfloor>)
           else NaN))"

definition js_mul :: "real \<Rightarrow> jsnum \<Rightarrow> jsnum" where
  \<comment> \<open>\<open>a * b\<close> with a finite left factor\<close>
  "js_mul a b =
     (case b of
        Num x \<Rightarrow> Num (a * x)
      | PosInfinity \<Rightarrow> (if 0 < a then PosInfinity else if a < 0 then NegInfinity else NaN)
      | NegInfinity \<Rightarrow> (if 0 < a then NegInfinity else if a < 0 then PosInfinity else NaN)
      | NaN \<Rightarrow> NaN)"

subsection \<open>DOM events\<close>

record Modifiers =
  shiftKey :: bool
  altKey :: bool
  ctrlKey :: bool
  metaKey :: bool

record MouseEvent = Modifiers +
  clientX :: real
  clientY :: real

record PointerEvent = MouseEvent +
  pointerId :: int

record WheelEvent = MouseEvent +
  deltaX :: real
  deltaY :: real
  deltaZ :: real
  deltaMode :: nat

subsection \<open>Events handed to the editor\<close>

datatype Vec = Vec (vx: real) (vy: real)

datatype VecModel = VecModel (px: real) (py: real) (pz: jsnum)

datatype TLEventName = pinch_start | pinch | pinch_end | wheel

record TLBaseEventInfo = Modifiers +
  accelKey :: bool

record 'p TLGestureEventInfo = TLBaseEventInfo +
  name :: TLEventName
  point :: 'p
  delta :: Vec

type_synonym TLPinchEventInfo = "VecModel TLGestureEventInfo"
type_synonym TLWheelEventInfo = "Vec TLGestureEventInfo"

datatype TLEventInfo = Pinch TLPinchEventInfo | Wheel TLWheelEventInfo
  \<comment> \<open>the constructor is the \<open>type\<close> field\<close>

subsection \<open>Collaborators\<close>

text \<open>
  The editor is read, never written. One value of \<open>Editor\<close> is what the editor answers
  during one handler call. Shapes, shape ids and boxes are opaque; \<open>containsPoint\<close> is
  the box method of that name and \<open>canScroll\<close> stands for
  \<open>editor.getShapeUtil(shape).canScroll(shape)\<close>.
\<close>

record ('id, 'shape, 'box) Editor =
  getZoomLevel :: real
  zoomSpeed :: real
  isFocused :: bool
  getEditingShapeId :: "'id option"
  getShape :: "'id \<Rightarrow> 'shape option"
  canScroll :: "'shape \<Rightarrow> bool"
  getShapePageBounds :: "'id \<Rightarrow> 'box option"
  containsPoint :: "'box \<Rightarrow> Vec \<Rightarrow> bool"
  currentPagePoint :: Vec

text \<open>The imported helpers \<open>isAccelKey\<close> and \<open>normalizeWheel\<close> are parameters.\<close>

record Utils =
  isAccelKey :: "MouseEvent \<Rightarrow> bool"
  normalizeWheel :: "WheelEvent \<Rightarrow> Vec"

subsection \<open>The closure state\<close>

datatype PinchState = not_sure | zooming | panning

text \<open>
  \<open>activePointers\<close> is a JavaScript \<open>Map\<close>: its values are listed in insertion order and
  \<open>set\<close> on a present key keeps the key's place.
\<close>

type_synonym 'v js_map = "(int \<times> 'v) list"

definition map_has :: "'v js_map \<Rightarrow> int \<Rightarrow> bool" where
  "map_has m k = (k \<in> set (map fst m))"

fun map_set :: "'v js_map \<Rightarrow> int \<Rightarrow> 'v \<Rightarrow> 'v js_map" where
  "map_set [] k v = [(k, v)]"
| "map_set ((k', v') # m) k v = (if k' = k then (k, v) # m else (k', v') # map_set m k v)"

definition map_delete :: "'v js_map \<Rightarrow> int \<Rightarrow> 'v js_map" where
  "map_delete m k = filter (\<lambda>kv. fst kv \<noteq> k) m"

definition map_size :: "'v js_map \<Rightarrow> nat" where
  "map_size m = length m"

definition map_values :: "'v js_map \<Rightarrow> 'v list" where
  "map_values m = map snd m"

text \<open>
  A request made with \<open>editor.timers.requestAnimationFrame\<close> stays queued until the next
  animation frame. The callback of \<open>onPointerUp\<close> closes over \<open>finalZoom\<close> and the event.
\<close>

datatype FrameRequest = FrameRequest (finalZoom: jsnum) (upEvent: PointerEvent)

record HookState =
  activePointers :: "PointerEvent js_map"
  pinchState :: PinchState
  initDistanceBetweenFingers :: real
  initZoom :: real
  currDistanceBetweenFingers :: real
  initPointBetweenFingers :: Vec
  prevPointBetweenFingers :: Vec
  frameRequests :: "FrameRequest list"

definition initialState :: "Vec \<Rightarrow> HookState" where
  \<comment> \<open>the argument is the value of \<open>new Vec()\<close>\<close>
  "initialState newVec =
     \<lparr>activePointers = [],
      pinchState = not_sure,
      initDistanceBetweenFingers = 1,
      initZoom = 1,
      currDistanceBetweenFingers = 0,
      initPointBetweenFingers = newVec,
      prevPointBetweenFingers = newVec,
      frameRequests = []\<rparr>"

subsection \<open>Geometry\<close>

definition getPointerDistance :: "PointerEvent \<Rightarrow> PointerEvent \<Rightarrow> real" where
  "getPointerDistance p1 p2 =
     (let dx = clientX p1 - clientX p2;
          dy = clientY p1 - clientY p2
      in sqrt (dx * dx + dy * dy))"

definition getPointerCenter :: "PointerEvent \<Rightarrow> PointerEvent \<Rightarrow> Vec" where
  "getPointerCenter p1 p2 = Vec ((clientX p1 + clientX p2) / 2) ((clientY p1 + clientY p2) / 2)"

text \<open>
  Modelled from the spec: \<open>Vec.Dist\<close> of the \<open>Vec\<close> class, which is not part of the
  hook's file; the spec calls it the euclidean distance between the two centroids.
\<close>

definition Vec_Dist :: "Vec \<Rightarrow> Vec \<Rightarrow> real" where
  "Vec_Dist A B = sqrt ((vx A - vx B) * (vx A - vx B) + (vy A - vy B) * (vy A - vy B))"

subsection \<open>Classification\<close>

definition touchDistance :: "HookState \<Rightarrow> real" where
  "touchDistance s = \<bar>currDistanceBetweenFingers s - initDistanceBetweenFingers s\<bar>"

definition originDistance :: "HookState \<Rightarrow> real" where
  "originDistance s = Vec_Dist (initPointBetweenFingers s) (prevPointBetweenFingers s)"

definition updatePinchState :: "HookState \<Rightarrow> HookState" where
  "updatePinchState s =
     (if pinchState s = zooming then s
      else case pinchState s of
        not_sure \<Rightarrow>
          (if touchDistance s > 24 then s\<lparr>pinchState := zooming\<rparr>
           else if originDistance s > 16 then s\<lparr>pinchState := panning\<rparr>
           else s)
      | panning \<Rightarrow>
          (if touchDistance s > 64 then s\<lparr>pinchState := zooming\<rparr>
           else s)
      | zooming \<Rightarrow> s)"

subsection \<open>Pointer handlers\<close>

definition pinchInfo ::
  "Utils \<Rightarrow> PointerEvent \<Rightarrow> TLEventName \<Rightarrow> VecModel \<Rightarrow> Vec \<Rightarrow> TLEventInfo" where
  \<comment> \<open>the object literal that every pinch dispatch builds from the DOM event \<open>e\<close>\<close>
  "pinchInfo u e n p d =
     Pinch \<lparr>shiftKey = shiftKey e,
            altKey = altKey e,
            ctrlKey = (metaKey e \<or> ctrlKey e),
            metaKey = metaKey e,
            accelKey = isAccelKey u (MouseEvent.truncate e),
            name = n,
            point = p,
            delta = d\<rparr>"

definition onPointerDown ::
  "Utils \<Rightarrow> ('id, 'shape, 'box) Editor \<Rightarrow> HookState \<Rightarrow> PointerEvent
     \<Rightarrow> HookState \<times> TLEventInfo list" where
  "onPointerDown u editor s e =
     (let s1 = s\<lparr>activePointers := map_set (activePointers s) (pointerId e) e\<rparr>
      in if map_size (activePointers s1) = 2 then
           (let ps = map_values (activePointers s1);
                p1 = ps ! 0;
                p2 = ps ! 1;
                center = getPointerCenter p1 p2;
                s2 = s1\<lparr>pinchState := not_sure,
                        prevPointBetweenFingers := Vec (vx center) (vy center),
                        initPointBetweenFingers := Vec (vx center) (vy center),
                        initDistanceBetweenFingers := getPointerDistance p1 p2,
                        initZoom := getZoomLevel editor\<rparr>
            in (s2, [pinchInfo u e pinch_start
                       (VecModel (vx center) (vy center) (Num (getZoomLevel editor)))
                       (Vec 0 0)]))
         else (s1, []))"

definition onPointerMove ::
  "Utils \<Rightarrow> ('id, 'shape, 'box) Editor \<Rightarrow> HookState \<Rightarrow> PointerEvent
     \<Rightarrow> HookState \<times> TLEventInfo list" where
  "onPointerMove u editor s e =
     (if \<not> map_has (activePointers s) (pointerId e) then (s, [])
      else
        (let s1 = s\<lparr>activePointers := map_set (activePointers s) (pointerId e) e\<rparr>
         in if map_size (activePointers s1) = 2 then
              (let ps = map_values (activePointers s1);
                   p1 = ps ! 0;
                   p2 = ps ! 1;
                   center = getPointerCenter p1 p2;
                   s2 = s1\<lparr>currDistanceBetweenFingers := getPointerDistance p1 p2\<rparr>;
                   dx = vx center - vx (prevPointBetweenFingers s2);
                   dy = vy center - vy (prevPointBetweenFingers s2);
                   s3 = s2\<lparr>prevPointBetweenFingers := Vec (vx center) (vy center)\<rparr>;
                   s4 = updatePinchState s3
               in case pinchState s4 of
                    zooming \<Rightarrow>
                      (let scale = js_div (currDistanceBetweenFingers s4)
                                     (initDistanceBetweenFingers s4);
                           currZoom = js_mul (initZoom s4) (js_pow scale (zoomSpeed editor))
                       in (s4, [pinchInfo u e pinch
                                  (VecModel (vx center) (vy center) currZoom) (Vec dx dy)]))
                  | panning \<Rightarrow>
                      (s4, [pinchInfo u e pinch
                              (VecModel (vx center) (vy center) (Num (initZoom s4))) (Vec dx dy)])
                  | not_sure \<Rightarrow> (s4, []))
            else (s1, [])))"

definition onPointerUp ::
  "Utils \<Rightarrow> ('id, 'shape, 'box) Editor \<Rightarrow> HookState \<Rightarrow> PointerEvent
     \<Rightarrow> HookState \<times> TLEventInfo list" where
  "onPointerUp u editor s e =
     (let s1 =
        (if map_size (activePointers s) = 2 then
           (let scale = js_div (currDistanceBetweenFingers s) (initDistanceBetweenFingers s);
                finalZoom = js_mul (initZoom s) (js_pow scale (zoomSpeed editor))
            in s\<lparr>pinchState := not_sure,
                 frameRequests := frameRequests s @ [FrameRequest finalZoom e]\<rparr>)
         else s)
      in (s1\<lparr>activePointers := map_delete (activePointers s1) (pointerId e)\<rparr>, []))"

text \<open>
  Modelled from the spec: \<open>editor.timers.requestAnimationFrame\<close>, which is not part of
  the hook's file; the spec defers the callback to the next animation-frame tick. At
  the tick every queued callback runs, in request order, and reads
  \<open>prevPointBetweenFingers\<close> as it is then.
\<close>

definition runFrameRequest :: "Utils \<Rightarrow> HookState \<Rightarrow> FrameRequest \<Rightarrow> TLEventInfo" where
  "runFrameRequest u s r =
     pinchInfo u (upEvent r) pinch_end
       (VecModel (vx (prevPointBetweenFingers s)) (vy (prevPointBetweenFingers s)) (finalZoom r))
       (Vec (vx (prevPointBetweenFingers s)) (vy (prevPointBetweenFingers s)))"

definition onAnimationFrame :: "Utils \<Rightarrow> HookState \<Rightarrow> HookState \<times> TLEventInfo list" where
  "onAnimationFrame u s =
     (s\<lparr>frameRequests := []\<rparr>, map (runFrameRequest u s) (frameRequests s))"

subsection \<open>Wheel handler\<close>

record WheelOutcome =
  state :: HookState
  dispatched :: "TLEventInfo list"
  defaultPrevented :: bool
  propagationStopped :: bool

definition scrollsInsideEditingShape :: "('id, 'shape, 'box) Editor \<Rightarrow> bool" where
  \<comment> \<open>the nested \<open>if\<close>s that end in the early \<open>return\<close>\<close>
  "scrollsInsideEditingShape editor =
     (case getEditingShapeId editor of
        None \<Rightarrow> False
      | Some editingShapeId \<Rightarrow>
          (case getShape editor editingShapeId of
             None \<Rightarrow> False
           | Some shape \<Rightarrow>
               (if canScroll editor shape then
                  (case getShapePageBounds editor editingShapeId of
                     None \<Rightarrow> False
                   | Some bounds \<Rightarrow> containsPoint editor bounds (currentPagePoint editor))
                else False)))"

definition onWheel ::
  "Utils \<Rightarrow> ('id, 'shape, 'box) Editor \<Rightarrow> HookState \<Rightarrow> WheelEvent \<Rightarrow> WheelOutcome" where
  "onWheel u editor s e =
     (if \<not> isFocused editor then
        \<lparr>state = s, dispatched = [], defaultPrevented = False, propagationStopped = False\<rparr>
      else
        (let s1 = s\<lparr>pinchState := not_sure\<rparr>
         in if scrollsInsideEditingShape editor then
              \<lparr>state = s1, dispatched = [], defaultPrevented = False,
               propagationStopped = False\<rparr>
            else
              (let d = normalizeWheel u e
               in if vx d = 0 \<and> vy d = 0 then
                    \<lparr>state = s1, dispatched = [], defaultPrevented = True,
                     propagationStopped = True\<rparr>
                  else
                    \<lparr>state = s1,
                     dispatched =
                       [Wheel \<lparr>shiftKey = shiftKey e,
                               altKey = altKey e,
                               ctrlKey = (metaKey e \<or> ctrlKey e),
                               metaKey = metaKey e,
                               accelKey = isAccelKey u (MouseEvent.truncate e),
                               name = wheel,
                               point = Vec (clientX e) (clientY e),
                               delta = d\<rparr>],
                     defaultPrevented = True,
                     propagationStopped = True\<rparr>)))"

subsection \<open>Event traces\<close>

text \<open>
  \<open>pointerup\<close> and \<open>pointercancel\<close> share the listener \<open>onPointerUp\<close>. Every event comes
  with what the editor answers while it is handled.
\<close>

datatype DomEvent =
    PointerDown PointerEvent
  | PointerMove PointerEvent
  | PointerUp PointerEvent
  | PointerCancel PointerEvent
  | WheelTick WheelEvent
  | AnimationFrame

definition handleEvent ::
  "Utils \<Rightarrow> HookState \<Rightarrow> ('id, 'shape, 'box) Editor \<times> DomEvent
     \<Rightarrow> HookState \<times> TLEventInfo list" where
  "handleEvent u s x =
     (case snd x of
        PointerDown e \<Rightarrow> onPointerDown u (fst x) s e
      | PointerMove e \<Rightarrow> onPointerMove u (fst x) s e
      | PointerUp e \<Rightarrow> onPointerUp u (fst x) s e
      | PointerCancel e \<Rightarrow> onPointerUp u (fst x) s e
      | WheelTick e \<Rightarrow> (state (onWheel u (fst x) s e), dispatched (onWheel u (fst x) s e))
      | AnimationFrame \<Rightarrow> onAnimationFrame u s)"

fun runEvents ::
  "Utils \<Rightarrow> HookState \<Rightarrow> (('id, 'shape, 'box) Editor \<times> DomEvent) list
     \<Rightarrow> HookState \<times> TLEventInfo list" where
  "runEvents u s [] = (s, [])"
| "runEvents u s (x # xs) =
     (let r1 = handleEvent u s x;
          r2 = runEvents u (fst r1) xs
      in (fst r2, snd r1 @ snd r2))"

text \<open>
  An update step is a \<open>pointermove\<close> that reaches the body of the \<open>size === 2\<close> branch of
  \<open>onPointerMove\<close>: the contact is tracked and two contacts are tracked (\<open>set\<close> on a
  tracked key keeps the size). \<open>noUpdateStep u s xs\<close> says that no event of \<open>xs\<close>, run
  from \<open>s\<close>, is one.
\<close>

definition isUpdateStep :: "HookState \<Rightarrow> DomEvent \<Rightarrow> bool" where
  "isUpdateStep s ev =
     (case ev of
        PointerMove e \<Rightarrow>
          map_has (activePointers s) (pointerId e) \<and> map_size (activePointers s) = 2
      | _ \<Rightarrow> False)"

fun noUpdateStep ::
  "Utils \<Rightarrow> HookState \<Rightarrow> (('id, 'shape, 'box) Editor \<times> DomEvent) list \<Rightarrow> bool" where
  "noUpdateStep u s [] = True"
| "noUpdateStep u s (x # xs) =
     (\<not> isUpdateStep s (snd x) \<and> noUpdateStep u (fst (handleEvent u s x)) xs)"

subsection \<open>Example values\<close>

text \<open>
  Concrete collaborators and events for the evaluated examples: an editor at zoom 1
  with zoom speed 1, focused, with no shape being edited, and pointer events without
  modifier keys.
\<close>

definition exampleUtils :: Utils where
  "exampleUtils =
     \<lparr>isAccelKey = (\<lambda>e. ctrlKey e \<or> metaKey e),
      normalizeWheel = (\<lambda>e. Vec (- deltaX e) (- deltaY e))\<rparr>"

definition exampleEditor :: "(nat, unit, unit) Editor" where
  "exampleEditor =
     \<lparr>getZoomLevel = 1,
      zoomSpeed = 1,
      isFocused = True,
      getEditingShapeId = None,
      getShape = (\<lambda>i. None),
      canScroll = (\<lambda>sh. False),
      getShapePageBounds = (\<lambda>i. None),
      containsPoint = (\<lambda>b p. False),
      currentPagePoint = Vec 0 0\<rparr>"

definition pointerAt :: "int \<Rightarrow> real \<Rightarrow> real \<Rightarrow> PointerEvent" where
  "pointerAt i x y =
     \<lparr>shiftKey = False, altKey = False, ctrlKey = False, metaKey = False,
      clientX = x, clientY = y, pointerId = i\<rparr>"

definition exampleWheel :: WheelEvent where
  "exampleWheel =
     \<lparr>shiftKey = False, altKey = False, ctrlKey = False, metaKey = False,
      clientX = 10, clientY = 20, deltaX = 0, deltaY = 3, deltaZ = 0, deltaMode = 0\<rparr>"

definition scrollingEditor :: "Vec \<Rightarrow> (nat, unit, real \<times> real) Editor" where
  \<comment> \<open>shape 7 is being edited and scrolls; its page bounds are an interval of x coordinates\<close>
  "scrollingEditor p =
     \<lparr>getZoomLevel = 1,
      zoomSpeed = 1,
      isFocused = True,
      getEditingShapeId = Some 7,
      getShape = (\<lambda>i. if i = 7 then Some () else None),
      canScroll = (\<lambda>sh. True),
      getShapePageBounds = (\<lambda>i. if i = 7 then Some (0, 50) else None),
      containsPoint = (\<lambda>b q. fst b \<le> vx q \<and> vx q \<le> snd b),
      currentPagePoint = p\<rparr>"

definition sessionState :: "PinchState \<Rightarrow> real \<Rightarrow> real \<Rightarrow> HookState" where
  \<comment> \<open>a session started at zoom 1 with the contacts at (0,0) and (100,0), after an update
     that left them at \<open>(x1,0)\<close> and \<open>(x2,0)\<close>\<close>
  "sessionState mode x1 x2 =
     \<lparr>activePointers = [(1, pointerAt 1 x1 0), (2, pointerAt 2 x2 0)],
      pinchState = mode,
      initDistanceBetweenFingers = 100,
      initZoom = 1,
      currDistanceBetweenFingers = \<bar>x1 - x2\<bar>,
      initPointBetweenFingers = Vec 50 0,
      prevPointBetweenFingers = Vec ((x1 + x2) / 2) 0,
      frameRequests = []\<rparr>"

section \<open>Properties\<close>

subsection \<open>Auxiliary facts\<close>

lemma length_two: "length xs = 2 \<Longrightarrow> \<exists>a b. xs = [a, b]"
  by (cases xs; cases "tl xs"; auto)

lemma map_has_Nil: "map_has [] k = False"
  by (simp add: map_has_def)

lemma map_has_Cons: "map_has (kv # m) k = (fst kv = k \<or> map_has m k)"
  by (auto simp: map_has_def)

lemma map_size_map_set:
  "map_size (map_set m k v) = (if map_has m k then map_size m else Suc (map_size m))"
  by (induction m k v rule: map_set.induct) (simp_all add: map_size_def map_has_Nil map_has_Cons)

lemma map_has_map_set: "map_has (map_set m k v) k' = (k' = k \<or> map_has m k')"
  by (induction m k v rule: map_set.induct) (auto simp: map_has_Nil map_has_Cons)

lemma keys_map_set:
  "map fst (map_set m k v) = (if map_has m k then map fst m else map fst m @ [k])"
  by (induction m k v rule: map_set.induct) (simp_all add: map_has_Nil map_has_Cons)

lemma getPointerDistance_same_y:
  "clientY p1 = clientY p2 \<Longrightarrow> getPointerDistance p1 p2 = \<bar>clientX p1 - clientX p2\<bar>"
  by (simp add: getPointerDistance_def)

lemma Vec_Dist_same_y: "vy A = vy B \<Longrightarrow> Vec_Dist A B = \<bar>vx A - vx B\<bar>"
  by (simp add: Vec_Dist_def)

lemma updatePinchState_frame:
  "updatePinchState s = s\<lparr>pinchState := pinchState (updatePinchState s)\<rparr>"
  by (simp add: updatePinchState_def split: PinchState.split)

lemma updatePinchState_zooming:
  "pinchState s = zooming \<Longrightarrow> updatePinchState s = s"
  by (simp add: updatePinchState_def)

lemma updatePinchState_fields:
  "activePointers (updatePinchState s) = activePointers s"
  "initDistanceBetweenFingers (updatePinchState s) = initDistanceBetweenFingers s"
  "initZoom (updatePinchState s) = initZoom s"
  "currDistanceBetweenFingers (updatePinchState s) = currDistanceBetweenFingers s"
  "initPointBetweenFingers (updatePinchState s) = initPointBetweenFingers s"
  "prevPointBetweenFingers (updatePinchState s) = prevPointBetweenFingers s"
  "frameRequests (updatePinchState s) = frameRequests s"
  by (simp_all add: updatePinchState_def split: PinchState.split)

lemma onPointerMove_untracked:
  "\<not> map_has (activePointers s) (pointerId e) \<Longrightarrow> onPointerMove u editor s e = (s, [])"
  by (simp add: onPointerMove_def)

lemma onPointerMove_state:
  assumes "map_has (activePointers s) (pointerId e)"
    and "map_size (activePointers s) = 2"
  shows "fst (onPointerMove u editor s e) =
     updatePinchState
       (s\<lparr>activePointers := map_set (activePointers s) (pointerId e) e,
          currDistanceBetweenFingers :=
            getPointerDistance (map_values (map_set (activePointers s) (pointerId e) e) ! 0)
              (map_values (map_set (activePointers s) (pointerId e) e) ! 1),
          prevPointBetweenFingers :=
            getPointerCenter (map_values (map_set (activePointers s) (pointerId e) e) ! 0)
              (map_values (map_set (activePointers s) (pointerId e) e) ! 1)\<rparr>)"
  using assms
  by (simp add: onPointerMove_def map_size_map_set Let_def split: PinchState.split)

lemma onPointerMove_other_size:
  assumes "map_has (activePointers s) (pointerId e)"
    and "map_size (activePointers s) \<noteq> 2"
  shows "onPointerMove u editor s e =
     (s\<lparr>activePointers := map_set (activePointers s) (pointerId e) e\<rparr>, [])"
  using assms by (simp add: onPointerMove_def map_size_map_set Let_def)

lemma onPointerMove_keeps_zooming:
  assumes z: "pinchState s = zooming"
  shows "pinchState (fst (onPointerMove u editor s e)) = zooming"
proof (cases "map_has (activePointers s) (pointerId e)")
  case False
  with z show ?thesis by (simp add: onPointerMove_untracked)
next
  case tracked: True
  show ?thesis
  proof (cases "map_size (activePointers s) = 2")
    case True
    with tracked z show ?thesis
      by (simp add: onPointerMove_state updatePinchState_zooming)
  next
    case False
    with tracked z show ?thesis
      by (simp add: onPointerMove_other_size)
  qed
qed

lemma onPointerMove_keeps_size:
  "map_size (activePointers (fst (onPointerMove u editor s e))) = map_size (activePointers s)"
proof (cases "map_has (activePointers s) (pointerId e)")
  case False
  then show ?thesis by (simp add: onPointerMove_untracked)
next
  case tracked: True
  show ?thesis
  proof (cases "map_size (activePointers s) = 2")
    case True
    with tracked show ?thesis
      by (subst onPointerMove_state [OF tracked True], subst updatePinchState_frame)
        (simp add: map_size_map_set)
  next
    case False
    with tracked show ?thesis
      by (simp add: onPointerMove_other_size map_size_map_set)
  qed
qed

lemma runEvents_session_updates:
  assumes "\<forall>x \<in> set xs. (\<exists>e. snd x = PointerMove e) \<or> snd x = AnimationFrame
      \<or> (\<exists>e. snd x = WheelTick e) \<and> \<not> isFocused (fst x)"
    and "pinchState s = zooming"
  shows "pinchState (fst (runEvents u s xs)) = zooming
         \<and> map_size (activePointers (fst (runEvents u s xs))) = map_size (activePointers s)"
  using assms
proof (induction xs arbitrary: s)
  case Nil
  then show ?case by simp
next
  case (Cons x xs)
  from Cons.prems(1) have x: "(\<exists>e. snd x = PointerMove e) \<or> snd x = AnimationFrame
      \<or> (\<exists>e. snd x = WheelTick e) \<and> \<not> isFocused (fst x)"
    by simp
  have step: "pinchState (fst (handleEvent u s x)) = zooming
      \<and> map_size (activePointers (fst (handleEvent u s x))) = map_size (activePointers s)"
    using x Cons.prems(2)
    by (auto simp: handleEvent_def onAnimationFrame_def onWheel_def
        onPointerMove_keeps_zooming onPointerMove_keeps_size)
  from Cons.prems(1) have rest:
    "\<forall>x \<in> set xs. (\<exists>e. snd x = PointerMove e) \<or> snd x = AnimationFrame
      \<or> (\<exists>e. snd x = WheelTick e) \<and> \<not> isFocused (fst x)"
    by simp
  from Cons.IH [OF rest, of "fst (handleEvent u s x)"] step
  show ?case by (simp add: Let_def)
qed

lemma onPointerMove_dispatch:
  assumes "map_has (activePointers s) (pointerId e)"
    and "map_size (activePointers s) = 2"
  shows "snd (onPointerMove u editor s e) =
     (let ps = map_values (map_set (activePointers s) (pointerId e) e);
          center = getPointerCenter (ps ! 0) (ps ! 1);
          d = Vec (vx center - vx (prevPointBetweenFingers s))
                (vy center - vy (prevPointBetweenFingers s))
      in case pinchState (fst (onPointerMove u editor s e)) of
           zooming \<Rightarrow>
             [pinchInfo u e pinch
                (VecModel (vx center) (vy center)
                   (js_mul (initZoom s)
                      (js_pow (js_div (getPointerDistance (ps ! 0) (ps ! 1))
                                 (initDistanceBetweenFingers s))
                         (zoomSpeed editor)))) d]
         | panning \<Rightarrow>
             [pinchInfo u e pinch (VecModel (vx center) (vy center) (Num (initZoom s))) d]
         | not_sure \<Rightarrow> [])"
  using assms
  by (simp add: onPointerMove_def map_size_map_set Let_def updatePinchState_fields
      split: PinchState.split)

lemma map_delete_pair:
  assumes "map_size m = 2" and "distinct (map fst m)" and "map_has m k"
  shows "map_size (map_delete m k) = 1"
proof -
  from assms(1) obtain a b where m: "m = [a, b]"
    unfolding map_size_def using length_two by blast
  with assms(2,3) show ?thesis
    by (auto simp: map_delete_def map_size_def map_has_def)
qed

lemma distinct_keys_map_set:
  "distinct (map fst m) \<Longrightarrow> distinct (map fst (map_set m k v))"
  by (simp add: keys_map_set map_has_def)

lemma distinct_keys_handleEvent:
  assumes "distinct (map fst (activePointers s))"
  shows "distinct (map fst (activePointers (fst (handleEvent u s x))))"
proof (cases "snd x")
  case (PointerDown e)
  with assms show ?thesis
    by (simp add: handleEvent_def onPointerDown_def Let_def distinct_keys_map_set)
next
  case (PointerMove e)
  with assms show ?thesis
    by (simp add: handleEvent_def onPointerMove_def Let_def distinct_keys_map_set
        updatePinchState_fields split: PinchState.split)
next
  case (PointerUp e)
  with assms show ?thesis
    by (simp add: handleEvent_def onPointerUp_def Let_def map_delete_def distinct_map_filter)
next
  case (PointerCancel e)
  with assms show ?thesis
    by (simp add: handleEvent_def onPointerUp_def Let_def map_delete_def distinct_map_filter)
next
  case (WheelTick e)
  with assms show ?thesis
    by (simp add: handleEvent_def onWheel_def Let_def)
next
  case AnimationFrame
  with assms show ?thesis
    by (simp add: handleEvent_def onAnimationFrame_def)
qed

lemma runEvents_Cons:
  "handleEvent u s x = (s', out) \<Longrightarrow>
   runEvents u s (x # xs) = (fst (runEvents u s' xs), out @ snd (runEvents u s' xs))"
  by (simp add: Let_def)

lemmas example_defs = sessionState_def pointerAt_def exampleEditor_def map_size_def
  map_values_def map_has_def map_delete_def getPointerDistance_same_y getPointerCenter_def
  updatePinchState_def touchDistance_def originDistance_def Vec_Dist_same_y
  js_mul_def js_pow_def js_div_def Let_def

lemma values_map_set_tracked:
  "map_has m k \<Longrightarrow> map_of (map_set m k v) = (map_of m)(k \<mapsto> v)"
  by (induction m k v rule: map_set.induct) (auto simp: map_has_Nil map_has_Cons)

lemma step_down_first:
  "handleEvent exampleUtils (initialState (Vec 0 0)) (exampleEditor, PointerDown (pointerAt 1 0 0))
     = ((initialState (Vec 0 0))\<lparr>activePointers := [(1, pointerAt 1 0 0)]\<rparr>, [])"
  by (simp add: handleEvent_def onPointerDown_def initialState_def map_size_def pointerAt_def)

lemma step_down_second:
  "handleEvent exampleUtils ((initialState (Vec 0 0))\<lparr>activePointers := [(1, pointerAt 1 0 0)]\<rparr>)
       (exampleEditor, PointerDown (pointerAt 2 100 0))
     = ((sessionState not_sure 0 100)\<lparr>currDistanceBetweenFingers := 0\<rparr>,
        [pinchInfo exampleUtils (pointerAt 2 100 0) pinch_start (VecModel 50 0 (Num 1)) (Vec 0 0)])"
  by (simp add: handleEvent_def onPointerDown_def initialState_def example_defs)

lemma step_move_undecided:
  "handleEvent exampleUtils ((sessionState not_sure 0 100)\<lparr>currDistanceBetweenFingers := 0\<rparr>)
       (exampleEditor, PointerMove (pointerAt 1 20 0))
     = (sessionState not_sure 20 100, [])"
  by (simp add: handleEvent_def onPointerMove_def example_defs)

lemma step_move_panning:
  "handleEvent exampleUtils (sessionState not_sure 20 100)
       (exampleEditor, PointerMove (pointerAt 2 120 0))
     = (sessionState panning 20 120,
        [pinchInfo exampleUtils (pointerAt 2 120 0) pinch (VecModel 70 0 (Num 1)) (Vec 10 0)])"
  by (simp add: handleEvent_def onPointerMove_def example_defs)

lemma step_move_zooming:
  "handleEvent exampleUtils ((sessionState not_sure 0 100)\<lparr>currDistanceBetweenFingers := 0\<rparr>)
       (exampleEditor, PointerMove (pointerAt 2 150 0))
     = (sessionState zooming 0 150,
        [pinchInfo exampleUtils (pointerAt 2 150 0) pinch (VecModel 75 0 (Num (3 / 2)))
           (Vec 25 0)])"
  by (simp add: handleEvent_def onPointerMove_def example_defs)

lemma onPointerUp_untracked_other_size:
  assumes "\<not> map_has (activePointers s) (pointerId e)"
    and "map_size (activePointers s) \<noteq> 2"
  shows "onPointerUp u editor s e = (s, [])"
proof -
  have "filter (\<lambda>kv. fst kv \<noteq> pointerId e) (activePointers s) = activePointers s"
    using assms(1) by (force simp: map_has_def filter_id_conv)
  with assms(2) show ?thesis
    by (simp add: onPointerUp_def map_delete_def)
qed

lemma handleEvent_keeps_currDistance:
  assumes "\<not> isUpdateStep s (snd x)"
  shows "currDistanceBetweenFingers (fst (handleEvent u s x)) = currDistanceBetweenFingers s"
proof (cases "snd x")
  case (PointerMove e)
  show ?thesis
  proof (cases "map_has (activePointers s) (pointerId e)")
    case False
    with PointerMove show ?thesis
      by (simp add: handleEvent_def onPointerMove_untracked)
  next
    case True
    with assms PointerMove have "map_size (activePointers s) \<noteq> 2"
      by (simp add: isUpdateStep_def)
    with True PointerMove show ?thesis
      by (simp add: handleEvent_def onPointerMove_other_size)
  qed
qed (simp_all add: handleEvent_def onPointerDown_def onPointerUp_def onWheel_def
    onAnimationFrame_def Let_def)

lemma runEvents_keeps_currDistance:
  assumes "noUpdateStep u s xs"
  shows "currDistanceBetweenFingers (fst (runEvents u s xs)) = currDistanceBetweenFingers s"
  using assms
proof (induction xs arbitrary: s)
  case Nil
  then show ?case by simp
next
  case (Cons x xs)
  then have "currDistanceBetweenFingers (fst (runEvents u (fst (handleEvent u s x)) xs))
      = currDistanceBetweenFingers (fst (handleEvent u s x))"
    by simp
  with Cons.prems show ?case
    by (simp add: Let_def handleEvent_keeps_currDistance)
qed

lemma step_move_untracked:
  "handleEvent exampleUtils (initialState (Vec 0 0)) (exampleEditor, PointerMove (pointerAt 9 5 5))
     = (initialState (Vec 0 0), [])"
  by (simp add: handleEvent_def onPointerMove_def initialState_def map_has_def)

lemma step_move_single:
  "handleEvent exampleUtils ((initialState (Vec 0 0))\<lparr>activePointers := [(1, pointerAt 1 0 0)]\<rparr>)
       (exampleEditor, PointerMove (pointerAt 1 0 0))
     = ((initialState (Vec 0 0))\<lparr>activePointers := [(1, pointerAt 1 0 0)]\<rparr>, [])"
  by (simp add: handleEvent_def onPointerMove_def initialState_def map_has_def map_size_def
      pointerAt_def)

lemma step_up_zooming:
  "handleEvent exampleUtils (sessionState zooming 0 150) (exampleEditor, PointerUp (pointerAt 2 150 0))
     = ((sessionState not_sure 0 150)
          \<lparr>activePointers := [(1, pointerAt 1 0 0)],
           frameRequests := [FrameRequest (Num (3 / 2)) (pointerAt 2 150 0)]\<rparr>, [])"
  by (simp add: handleEvent_def onPointerUp_def example_defs)

lemma step_frame_after_zooming:
  "handleEvent exampleUtils
       ((sessionState not_sure 0 150)
          \<lparr>activePointers := [(1, pointerAt 1 0 0)],
           frameRequests := [FrameRequest (Num (3 / 2)) (pointerAt 2 150 0)]\<rparr>)
       (exampleEditor, AnimationFrame)
     = ((sessionState not_sure 0 150)\<lparr>activePointers := [(1, pointerAt 1 0 0)]\<rparr>,
        [pinchInfo exampleUtils (pointerAt 2 150 0) pinch_end (VecModel 75 0 (Num (3 / 2)))
           (Vec 75 0)])"
  by (simp add: handleEvent_def onAnimationFrame_def runFrameRequest_def sessionState_def)

lemma step_down_again:
  "handleEvent exampleUtils
       ((sessionState not_sure 0 150)\<lparr>activePointers := [(1, pointerAt 1 0 0)]\<rparr>)
       (exampleEditor, PointerDown (pointerAt 2 100 0))
     = ((sessionState not_sure 0 100)\<lparr>currDistanceBetweenFingers := 150\<rparr>,
        [pinchInfo exampleUtils (pointerAt 2 100 0) pinch_start (VecModel 50 0 (Num 1)) (Vec 0 0)])"
  by (simp add: handleEvent_def onPointerDown_def example_defs)

lemma step_up_moveless:
  "handleEvent exampleUtils
       ((sessionState not_sure 0 100)\<lparr>currDistanceBetweenFingers := 150\<rparr>)
       (exampleEditor, PointerUp (pointerAt 2 100 0))
     = ((sessionState not_sure 0 100)
          \<lparr>activePointers := [(1, pointerAt 1 0 0)],
           currDistanceBetweenFingers := 150,
           frameRequests := [FrameRequest (Num (3 / 2)) (pointerAt 2 100 0)]\<rparr>, [])"
  by (simp add: handleEvent_def onPointerUp_def example_defs)

lemma step_frame_after_moveless:
  "handleEvent exampleUtils
       ((sessionState not_sure 0 100)
          \<lparr>activePointers := [(1, pointerAt 1 0 0)],
           currDistanceBetweenFingers := 150,
           frameRequests := [FrameRequest (Num (3 / 2)) (pointerAt 2 100 0)]\<rparr>)
       (exampleEditor, AnimationFrame)
     = ((sessionState not_sure 0 100)
          \<lparr>activePointers := [(1, pointerAt 1 0 0)], currDistanceBetweenFingers := 150\<rparr>,
        [pinchInfo exampleUtils (pointerAt 2 100 0) pinch_end (VecModel 50 0 (Num (3 / 2)))
           (Vec 50 0)])"
  by (simp add: handleEvent_def onAnimationFrame_def runFrameRequest_def sessionState_def)

lemma step_down_duplicate:
  "handleEvent exampleUtils (sessionState zooming 0 150)
       (exampleEditor, PointerDown (pointerAt 1 0 0))
     = ((sessionState not_sure 0 150)
          \<lparr>initDistanceBetweenFingers := 150, initPointBetweenFingers := Vec 75 0\<rparr>,
        [pinchInfo exampleUtils (pointerAt 1 0 0) pinch_start (VecModel 75 0 (Num 1)) (Vec 0 0)])"
  by (simp add: handleEvent_def onPointerDown_def example_defs)

lemma step_move_after_duplicate:
  "handleEvent exampleUtils
       ((sessionState not_sure 0 150)
          \<lparr>initDistanceBetweenFingers := 150, initPointBetweenFingers := Vec 75 0\<rparr>)
       (exampleEditor, PointerMove (pointerAt 1 20 0))
     = ((sessionState not_sure 20 150)
          \<lparr>initDistanceBetweenFingers := 150, initPointBetweenFingers := Vec 75 0\<rparr>, [])"
  by (simp add: handleEvent_def onPointerMove_def example_defs)

lemma step_move_pans_after_duplicate:
  "handleEvent exampleUtils
       ((sessionState not_sure 20 150)
          \<lparr>initDistanceBetweenFingers := 150, initPointBetweenFingers := Vec 75 0\<rparr>)
       (exampleEditor, PointerMove (pointerAt 2 170 0))
     = ((sessionState panning 20 170)
          \<lparr>initDistanceBetweenFingers := 150, initPointBetweenFingers := Vec 75 0\<rparr>,
        [pinchInfo exampleUtils (pointerAt 2 170 0) pinch (VecModel 95 0 (Num 1)) (Vec 10 0)])"
  by (simp add: handleEvent_def onPointerMove_def example_defs)

subsection \<open>Classification thresholds\<close>

text \<open>
  Claim C2. The classification step \<open>updatePinchState\<close>, with the touch spread
  \<open>|currDistanceBetweenFingers - initDistanceBetweenFingers|\<close> and the origin drift
  \<open>Vec.Dist(initPointBetweenFingers, prevPointBetweenFingers)\<close>: an undecided mode stays
  undecided when the spread is at most 24 and the drift at most 16; a spread above 24
  turns undecided into zooming; a drift above 16 with a spread of at most 24 turns
  undecided into panning; from panning a spread above 64 gives zooming and a spread of
  at most 64 keeps panning.
\<close>

theorem updatePinchState_thresholds:
  "(pinchState s = not_sure
      \<and> \<bar>currDistanceBetweenFingers s - initDistanceBetweenFingers s\<bar> \<le> 24
      \<and> Vec_Dist (initPointBetweenFingers s) (prevPointBetweenFingers s) \<le> 16
      \<longrightarrow> pinchState (updatePinchState s) = not_sure)
   \<and> (pinchState s = not_sure
      \<and> \<bar>currDistanceBetweenFingers s - initDistanceBetweenFingers s\<bar> > 24
      \<longrightarrow> pinchState (updatePinchState s) = zooming)
   \<and> (pinchState s = not_sure
      \<and> \<bar>currDistanceBetweenFingers s - initDistanceBetweenFingers s\<bar> \<le> 24
      \<and> Vec_Dist (initPointBetweenFingers s) (prevPointBetweenFingers s) > 16
      \<longrightarrow> pinchState (updatePinchState s) = panning)
   \<and> (pinchState s = panning
      \<and> \<bar>currDistanceBetweenFingers s - initDistanceBetweenFingers s\<bar> > 64
      \<longrightarrow> pinchState (updatePinchState s) = zooming)
   \<and> (pinchState s = panning
      \<and> \<bar>currDistanceBetweenFingers s - initDistanceBetweenFingers s\<bar> \<le> 64
      \<longrightarrow> pinchState (updatePinchState s) = panning)"
  by (simp add: updatePinchState_def touchDistance_def originDistance_def)

theorem updatePinchState_thresholds_witness:
  "pinchState (updatePinchState (sessionState not_sure 4 128)) = not_sure
   \<and> pinchState (updatePinchState (sessionState not_sure 0 125)) = zooming
   \<and> pinchState (updatePinchState (sessionState not_sure 17 117)) = panning
   \<and> pinchState (updatePinchState (sessionState panning 0 165)) = zooming
   \<and> pinchState (updatePinchState (sessionState panning 0 164)) = panning"
  using updatePinchState_thresholds [of "sessionState not_sure 4 128"]
    updatePinchState_thresholds [of "sessionState not_sure 0 125"]
    updatePinchState_thresholds [of "sessionState not_sure 17 117"]
    updatePinchState_thresholds [of "sessionState panning 0 165"]
    updatePinchState_thresholds [of "sessionState panning 0 164"]
  by (simp add: sessionState_def Vec_Dist_same_y)

subsection \<open>Zooming is terminal\<close>

text \<open>
  Claim C3, as stated, fails: with two contacts tracked throughout and no wheel event,
  a second \<open>pointerdown\<close> of contact 1 during a zooming session sets the mode back to
  undecided (see C9); the next update step ends undecided and the one after it ends in
  panning and dispatches a \<open>pinch\<close> event with \<open>z = initZoom\<close>.
\<close>

theorem zooming_reset_counterexample:
  "fst (runEvents exampleUtils (initialState (Vec 0 0))
        [(exampleEditor, PointerDown (pointerAt 1 0 0)),
         (exampleEditor, PointerDown (pointerAt 2 100 0)),
         (exampleEditor, PointerMove (pointerAt 2 150 0))]) = sessionState zooming 0 150
   \<and> runEvents exampleUtils (sessionState zooming 0 150)
        [(exampleEditor, PointerDown (pointerAt 1 0 0)),
         (exampleEditor, PointerMove (pointerAt 1 20 0)),
         (exampleEditor, PointerMove (pointerAt 2 170 0))]
      = ((sessionState panning 20 170)
           \<lparr>initDistanceBetweenFingers := 150, initPointBetweenFingers := Vec 75 0\<rparr>,
         [pinchInfo exampleUtils (pointerAt 1 0 0) pinch_start (VecModel 75 0 (Num 1)) (Vec 0 0),
          pinchInfo exampleUtils (pointerAt 2 170 0) pinch (VecModel 95 0 (Num 1)) (Vec 10 0)])
   \<and> pinchState (fst (runEvents exampleUtils (sessionState zooming 0 150)
        [(exampleEditor, PointerDown (pointerAt 1 0 0)),
         (exampleEditor, PointerMove (pointerAt 1 20 0))])) = not_sure
   \<and> map_size (activePointers (sessionState zooming 0 150)) = 2
   \<and> map_size (activePointers (fst (runEvents exampleUtils (sessionState zooming 0 150)
        [(exampleEditor, PointerDown (pointerAt 1 0 0))]))) = 2
   \<and> map_size (activePointers (fst (runEvents exampleUtils (sessionState zooming 0 150)
        [(exampleEditor, PointerDown (pointerAt 1 0 0)),
         (exampleEditor, PointerMove (pointerAt 1 20 0))]))) = 2
   \<and> map_size (activePointers (fst (runEvents exampleUtils (sessionState zooming 0 150)
        [(exampleEditor, PointerDown (pointerAt 1 0 0)),
         (exampleEditor, PointerMove (pointerAt 1 20 0)),
         (exampleEditor, PointerMove (pointerAt 2 170 0))]))) = 2"
proof -
  have r0: "fst (runEvents exampleUtils (initialState (Vec 0 0))
        [(exampleEditor, PointerDown (pointerAt 1 0 0)),
         (exampleEditor, PointerDown (pointerAt 2 100 0)),
         (exampleEditor, PointerMove (pointerAt 2 150 0))]) = sessionState zooming 0 150"
    by (simp add: runEvents_Cons [OF step_down_first] runEvents_Cons [OF step_down_second]
        runEvents_Cons [OF step_move_zooming] del: runEvents.simps(2))
  have r1: "runEvents exampleUtils (sessionState zooming 0 150)
        [(exampleEditor, PointerDown (pointerAt 1 0 0))]
      = ((sessionState not_sure 0 150)
           \<lparr>initDistanceBetweenFingers := 150, initPointBetweenFingers := Vec 75 0\<rparr>,
         [pinchInfo exampleUtils (pointerAt 1 0 0) pinch_start (VecModel 75 0 (Num 1))
            (Vec 0 0)])"
    by (simp add: runEvents_Cons [OF step_down_duplicate] del: runEvents.simps(2))
  have r2: "runEvents exampleUtils (sessionState zooming 0 150)
        [(exampleEditor, PointerDown (pointerAt 1 0 0)),
         (exampleEditor, PointerMove (pointerAt 1 20 0))]
      = ((sessionState not_sure 20 150)
           \<lparr>initDistanceBetweenFingers := 150, initPointBetweenFingers := Vec 75 0\<rparr>,
         [pinchInfo exampleUtils (pointerAt 1 0 0) pinch_start (VecModel 75 0 (Num 1))
            (Vec 0 0)])"
    by (simp add: runEvents_Cons [OF step_down_duplicate]
        runEvents_Cons [OF step_move_after_duplicate] del: runEvents.simps(2))
  have r3: "runEvents exampleUtils (sessionState zooming 0 150)
        [(exampleEditor, PointerDown (pointerAt 1 0 0)),
         (exampleEditor, PointerMove (pointerAt 1 20 0)),
         (exampleEditor, PointerMove (pointerAt 2 170 0))]
      = ((sessionState panning 20 170)
           \<lparr>initDistanceBetweenFingers := 150, initPointBetweenFingers := Vec 75 0\<rparr>,
         [pinchInfo exampleUtils (pointerAt 1 0 0) pinch_start (VecModel 75 0 (Num 1)) (Vec 0 0),
          pinchInfo exampleUtils (pointerAt 2 170 0) pinch (VecModel 95 0 (Num 1)) (Vec 10 0)])"
    by (simp add: runEvents_Cons [OF step_down_duplicate]
        runEvents_Cons [OF step_move_after_duplicate]
        runEvents_Cons [OF step_move_pans_after_duplicate] del: runEvents.simps(2))
  show ?thesis
    unfolding r0 r1 r2 r3 by (simp add: sessionState_def map_size_def)
qed

text \<open>
  Claim C3, amended. Along any sequence of update steps (\<open>pointermove\<close> events),
  animation frames and wheel events that the unfocused editor ignores, none of which
  changes the number of contacts, once the mode is zooming it is zooming after every
  step: the state after each prefix of the sequence has mode zooming, never panning or
  undecided. Repeated \<open>pointerdown\<close> events and releases are not part of such a sequence.
\<close>

theorem zooming_is_terminal:
  assumes "\<forall>x \<in> set xs. (\<exists>e. snd x = PointerMove e) \<or> snd x = AnimationFrame
      \<or> (\<exists>e. snd x = WheelTick e) \<and> \<not> isFocused (fst x)"
    and "pinchState s = zooming"
  shows "pinchState (fst (runEvents u s (take n xs))) = zooming
         \<and> map_size (activePointers (fst (runEvents u s (take n xs))))
             = map_size (activePointers s)"
proof -
  have "\<forall>x \<in> set (take n xs). (\<exists>e. snd x = PointerMove e) \<or> snd x = AnimationFrame
      \<or> (\<exists>e. snd x = WheelTick e) \<and> \<not> isFocused (fst x)"
    using assms(1) by (meson in_set_takeD)
  from runEvents_session_updates [OF this assms(2)] show ?thesis .
qed

theorem zooming_is_terminal_witness:
  "pinchState (sessionState zooming 0 150) = zooming
   \<and> pinchState (fst (runEvents exampleUtils (sessionState zooming 0 150)
        (take 4 [(exampleEditor, PointerMove (pointerAt 2 90 0)),
                 (exampleEditor, AnimationFrame),
                 (exampleEditor\<lparr>isFocused := False\<rparr>, WheelTick exampleWheel),
                 (exampleEditor, PointerMove (pointerAt 1 30 0))]))) = zooming"
  using zooming_is_terminal [of
      "[(exampleEditor, PointerMove (pointerAt 2 90 0)),
        (exampleEditor, AnimationFrame),
        (exampleEditor\<lparr>isFocused := False\<rparr>, WheelTick exampleWheel),
        (exampleEditor, PointerMove (pointerAt 1 30 0))]"
      "sessionState zooming 0 150" exampleUtils 4]
  by (simp add: sessionState_def)

subsection \<open>Events of an update step\<close>

text \<open>
  Claim C4. An update step (a \<open>pointermove\<close> of a tracked contact while two contacts are
  tracked) that ends in mode zooming dispatches one \<open>pinch\<close> event whose point carries
  \<open>z = initZoom * (currDistance / initDistance) ** zoomSpeed\<close>, with the distance just
  measured; for \<open>initZoom = 1\<close>, \<open>initDistance = 100\<close>, \<open>currDistance = 150\<close> and zoom speed 1
  this value is 1.5.
\<close>

theorem zoom_update_formula:
  assumes "map_has (activePointers s) (pointerId e)"
    and "map_size (activePointers s) = 2"
    and "pinchState (fst (onPointerMove u editor s e)) = zooming"
  shows "snd (onPointerMove u editor s e) =
     (let ps = map_values (map_set (activePointers s) (pointerId e) e);
          center = getPointerCenter (ps ! 0) (ps ! 1);
          currDistance = getPointerDistance (ps ! 0) (ps ! 1)
      in [pinchInfo u e pinch
            (VecModel (vx center) (vy center)
               (js_mul (initZoom s)
                  (js_pow (js_div currDistance (initDistanceBetweenFingers s))
                     (zoomSpeed editor))))
            (Vec (vx center - vx (prevPointBetweenFingers s))
               (vy center - vy (prevPointBetweenFingers s)))])
     \<and> js_mul 1 (js_pow (js_div 150 100) 1) = Num (3 / 2)"
proof
  show "snd (onPointerMove u editor s e) =
     (let ps = map_values (map_set (activePointers s) (pointerId e) e);
          center = getPointerCenter (ps ! 0) (ps ! 1);
          currDistance = getPointerDistance (ps ! 0) (ps ! 1)
      in [pinchInfo u e pinch
            (VecModel (vx center) (vy center)
               (js_mul (initZoom s)
                  (js_pow (js_div currDistance (initDistanceBetweenFingers s))
                     (zoomSpeed editor))))
            (Vec (vx center - vx (prevPointBetweenFingers s))
               (vy center - vy (prevPointBetweenFingers s)))])"
    using assms(3) by (simp add: onPointerMove_dispatch [OF assms(1,2)] Let_def)
  show "js_mul 1 (js_pow (js_div 150 100) 1) = Num (3 / 2)"
    by (simp add: js_mul_def js_pow_def js_div_def)
qed

theorem zoom_update_formula_witness:
  "snd (onPointerMove exampleUtils exampleEditor (sessionState not_sure 0 100) (pointerAt 2 150 0))
     = [pinchInfo exampleUtils (pointerAt 2 150 0) pinch
          (VecModel 75 0 (Num (3 / 2))) (Vec 25 0)]"
proof -
  have tracked: "map_has (activePointers (sessionState not_sure 0 100))
      (pointerId (pointerAt 2 150 0))"
    by (simp add: sessionState_def map_has_def pointerAt_def)
  have two: "map_size (activePointers (sessionState not_sure 0 100)) = 2"
    by (simp add: sessionState_def map_size_def)
  have mode: "pinchState (fst (onPointerMove exampleUtils exampleEditor
      (sessionState not_sure 0 100) (pointerAt 2 150 0))) = zooming"
    by (simp add: onPointerMove_state [OF tracked two])
      (simp add: sessionState_def pointerAt_def map_values_def updatePinchState_def
        touchDistance_def getPointerDistance_same_y)
  show ?thesis
    using zoom_update_formula [OF tracked two mode]
    by (simp add: sessionState_def pointerAt_def map_values_def exampleEditor_def
        getPointerDistance_same_y getPointerCenter_def js_mul_def js_pow_def js_div_def)
qed

text \<open>
  Claim C6. An update step that ends in mode panning dispatches one \<open>pinch\<close> event with
  \<open>z = initZoom\<close> and the delta from the previous centroid (as it was before the step)
  to the new centroid; an update step that ends undecided dispatches nothing.
\<close>

theorem pan_and_undecided_updates:
  assumes "map_has (activePointers s) (pointerId e)"
    and "map_size (activePointers s) = 2"
  shows "(pinchState (fst (onPointerMove u editor s e)) = panning \<longrightarrow>
      snd (onPointerMove u editor s e) =
        (let ps = map_values (map_set (activePointers s) (pointerId e) e);
             center = getPointerCenter (ps ! 0) (ps ! 1)
         in [pinchInfo u e pinch
               (VecModel (vx center) (vy center) (Num (initZoom s)))
               (Vec (vx center - vx (prevPointBetweenFingers s))
                  (vy center - vy (prevPointBetweenFingers s)))]))
     \<and> (pinchState (fst (onPointerMove u editor s e)) = not_sure \<longrightarrow>
      snd (onPointerMove u editor s e) = [])"
  by (simp add: onPointerMove_dispatch [OF assms] Let_def)

theorem pan_and_undecided_updates_witness:
  "snd (onPointerMove exampleUtils exampleEditor (sessionState not_sure 20 100) (pointerAt 2 120 0))
     = [pinchInfo exampleUtils (pointerAt 2 120 0) pinch (VecModel 70 0 (Num 1)) (Vec 10 0)]
   \<and> snd (onPointerMove exampleUtils exampleEditor (sessionState not_sure 0 100) (pointerAt 1 20 0))
     = []"
proof -
  have tracked: "map_has (activePointers (sessionState not_sure 20 100))
      (pointerId (pointerAt 2 120 0))"
    by (simp add: sessionState_def map_has_def pointerAt_def)
  have two: "map_size (activePointers (sessionState not_sure 20 100)) = 2"
    by (simp add: sessionState_def map_size_def)
  have mode: "pinchState (fst (onPointerMove exampleUtils exampleEditor
      (sessionState not_sure 20 100) (pointerAt 2 120 0))) = panning"
    by (simp add: onPointerMove_state [OF tracked two])
      (simp add: sessionState_def pointerAt_def map_values_def updatePinchState_def
        touchDistance_def originDistance_def getPointerDistance_same_y Vec_Dist_same_y
        getPointerCenter_def)
  have tracked': "map_has (activePointers (sessionState not_sure 0 100))
      (pointerId (pointerAt 1 20 0))"
    by (simp add: sessionState_def map_has_def pointerAt_def)
  have two': "map_size (activePointers (sessionState not_sure 0 100)) = 2"
    by (simp add: sessionState_def map_size_def)
  have mode': "pinchState (fst (onPointerMove exampleUtils exampleEditor
      (sessionState not_sure 0 100) (pointerAt 1 20 0))) = not_sure"
    by (simp add: onPointerMove_state [OF tracked' two'])
      (simp add: sessionState_def pointerAt_def map_values_def updatePinchState_def
        touchDistance_def originDistance_def getPointerDistance_same_y Vec_Dist_same_y
        getPointerCenter_def)
  show ?thesis
    using pan_and_undecided_updates [OF tracked two, of exampleUtils exampleEditor]
      pan_and_undecided_updates [OF tracked' two', of exampleUtils exampleEditor]
      mode mode'
    by (simp add: sessionState_def pointerAt_def map_values_def getPointerCenter_def)
qed

subsection \<open>Session end\<close>

text \<open>
  Claim C5. When a tracked contact is released while exactly two contacts are tracked
  (the contact count drops to 1), \<open>onPointerUp\<close> dispatches nothing itself, resets the
  mode to undecided, and queues one animation-frame request whose zoom is
  \<open>initZoom * (currDistance / initDistance) ** zoomSpeed\<close> from the stored distances,
  whatever the mode was. The next animation frame then dispatches, after the events of
  the requests queued before, exactly one \<open>pinch_end\<close> for this release: its point is
  the last centroid with that zoom as \<open>z\<close>, and its delta is the last centroid itself.
\<close>

theorem session_end:
  assumes "map_has (activePointers s) (pointerId e)"
    and "map_size (activePointers s) = 2"
    and "distinct (map fst (activePointers s))"
  shows "map_size (activePointers (fst (onPointerUp u editor s e))) = 1
     \<and> snd (onPointerUp u editor s e) = []
     \<and> pinchState (fst (onPointerUp u editor s e)) = not_sure
     \<and> frameRequests (fst (onPointerUp u editor s e)) =
         frameRequests s @
           [FrameRequest
              (js_mul (initZoom s)
                 (js_pow (js_div (currDistanceBetweenFingers s) (initDistanceBetweenFingers s))
                    (zoomSpeed editor))) e]
     \<and> prevPointBetweenFingers (fst (onPointerUp u editor s e)) = prevPointBetweenFingers s
     \<and> snd (onAnimationFrame u (fst (onPointerUp u editor s e))) =
         snd (onAnimationFrame u s) @
           [pinchInfo u e pinch_end
              (VecModel (vx (prevPointBetweenFingers s)) (vy (prevPointBetweenFingers s))
                 (js_mul (initZoom s)
                    (js_pow (js_div (currDistanceBetweenFingers s)
                               (initDistanceBetweenFingers s))
                       (zoomSpeed editor))))
              (Vec (vx (prevPointBetweenFingers s)) (vy (prevPointBetweenFingers s)))]
     \<and> frameRequests (fst (onAnimationFrame u (fst (onPointerUp u editor s e)))) = []"
  using assms(2) map_delete_pair [OF assms(2,3,1)]
  by (simp add: onPointerUp_def onAnimationFrame_def runFrameRequest_def Let_def)

theorem session_end_witness:
  "map_size (activePointers (fst (onPointerUp exampleUtils exampleEditor
        (sessionState panning 20 120) (pointerAt 2 120 0)))) = 1
   \<and> snd (onPointerUp exampleUtils exampleEditor (sessionState panning 20 120)
        (pointerAt 2 120 0)) = []
   \<and> pinchState (fst (onPointerUp exampleUtils exampleEditor (sessionState panning 20 120)
        (pointerAt 2 120 0))) = not_sure
   \<and> snd (onAnimationFrame exampleUtils
        (fst (onPointerUp exampleUtils exampleEditor (sessionState panning 20 120)
           (pointerAt 2 120 0)))) =
       [pinchInfo exampleUtils (pointerAt 2 120 0) pinch_end (VecModel 70 0 (Num 1)) (Vec 70 0)]"
proof -
  have tracked: "map_has (activePointers (sessionState panning 20 120))
      (pointerId (pointerAt 2 120 0))"
    by (simp add: sessionState_def map_has_def pointerAt_def)
  have two: "map_size (activePointers (sessionState panning 20 120)) = 2"
    by (simp add: sessionState_def map_size_def)
  have keys: "distinct (map fst (activePointers (sessionState panning 20 120)))"
    by (simp add: sessionState_def)
  have z: "js_mul (initZoom (sessionState panning 20 120))
      (js_pow (js_div (currDistanceBetweenFingers (sessionState panning 20 120))
           (initDistanceBetweenFingers (sessionState panning 20 120)))
         (zoomSpeed exampleEditor)) = Num 1"
    by (simp add: sessionState_def exampleEditor_def js_mul_def js_pow_def js_div_def)
  have q: "snd (onAnimationFrame exampleUtils (sessionState panning 20 120)) = []"
    by (simp add: onAnimationFrame_def sessionState_def)
  have p: "prevPointBetweenFingers (sessionState panning 20 120) = Vec 70 0"
    by (simp add: sessionState_def)
  show ?thesis
    using session_end [OF tracked two keys, of exampleUtils exampleEditor]
    by (simp add: z q p)
qed

subsection \<open>Wheel events\<close>

text \<open>
  Claim C7, as stated, fails: the handler returns before touching the mode when the
  editor is not focused. A wheel event on an unfocused editor during a panning session
  leaves the mode at panning.
\<close>

theorem wheel_unfocused_counterexample:
  "pinchState (state (onWheel exampleUtils (exampleEditor\<lparr>isFocused := False\<rparr>)
       (sessionState panning 20 120) exampleWheel)) \<noteq> not_sure"
  by (simp add: onWheel_def sessionState_def)

text \<open>
  Claim C7, amended. While the editor is focused, a wheel event sets the mode to
  undecided and leaves every other closure variable (contacts, distances, zoom,
  centroids, queued frame requests) unchanged; while it is not focused, nothing changes
  at all. In both cases no pinch event is dispatched.
\<close>

theorem wheel_resets_mode:
  "(isFocused editor \<longrightarrow> state (onWheel u editor s e) = s\<lparr>pinchState := not_sure\<rparr>)
   \<and> (\<not> isFocused editor \<longrightarrow> state (onWheel u editor s e) = s)
   \<and> (\<forall>info. Pinch info \<notin> set (dispatched (onWheel u editor s e)))"
  by (simp add: onWheel_def Let_def)

theorem wheel_resets_mode_witness:
  "state (onWheel exampleUtils exampleEditor (sessionState panning 20 120) exampleWheel)
     = sessionState not_sure 20 120
   \<and> state (onWheel exampleUtils (exampleEditor\<lparr>isFocused := False\<rparr>)
        (sessionState panning 20 120) exampleWheel)
     = sessionState panning 20 120"
  using wheel_resets_mode [of exampleEditor exampleUtils "sessionState panning 20 120" exampleWheel]
    wheel_resets_mode [of "exampleEditor\<lparr>isFocused := False\<rparr>" exampleUtils
      "sessionState panning 20 120" exampleWheel]
  by (simp add: exampleEditor_def sessionState_def)

text \<open>
  Claim C8. For a wheel event while the editor is focused: if a shape is being edited,
  it scrolls, and its page bounds contain the current page point, nothing is dispatched
  and neither the default action nor the propagation is suppressed; otherwise both are
  suppressed and one \<open>wheel\<close> event with the normalized delta is dispatched, unless the
  normalized delta is exactly (0,0), in which case nothing is dispatched.
\<close>

theorem wheel_exemption:
  assumes "isFocused editor"
  shows "((\<exists>i shape bounds. getEditingShapeId editor = Some i
            \<and> getShape editor i = Some shape \<and> canScroll editor shape
            \<and> getShapePageBounds editor i = Some bounds
            \<and> containsPoint editor bounds (currentPagePoint editor))
          \<longrightarrow> dispatched (onWheel u editor s e) = []
            \<and> \<not> defaultPrevented (onWheel u editor s e)
            \<and> \<not> propagationStopped (onWheel u editor s e))
     \<and> (\<not> (\<exists>i shape bounds. getEditingShapeId editor = Some i
            \<and> getShape editor i = Some shape \<and> canScroll editor shape
            \<and> getShapePageBounds editor i = Some bounds
            \<and> containsPoint editor bounds (currentPagePoint editor))
          \<longrightarrow> defaultPrevented (onWheel u editor s e)
            \<and> propagationStopped (onWheel u editor s e)
            \<and> dispatched (onWheel u editor s e) =
                (if vx (normalizeWheel u e) = 0 \<and> vy (normalizeWheel u e) = 0 then []
                 else [Wheel \<lparr>shiftKey = shiftKey e,
                               altKey = altKey e,
                               ctrlKey = (metaKey e \<or> ctrlKey e),
                               metaKey = metaKey e,
                               accelKey = isAccelKey u (MouseEvent.truncate e),
                               name = wheel,
                               point = Vec (clientX e) (clientY e),
                               delta = normalizeWheel u e\<rparr>]))"
proof -
  have ex: "scrollsInsideEditingShape editor =
      (\<exists>i shape bounds. getEditingShapeId editor = Some i
            \<and> getShape editor i = Some shape \<and> canScroll editor shape
            \<and> getShapePageBounds editor i = Some bounds
            \<and> containsPoint editor bounds (currentPagePoint editor))"
    by (auto simp: scrollsInsideEditingShape_def split: option.splits)
  show ?thesis
    unfolding ex [symmetric] using assms
    by (simp add: onWheel_def Let_def)
qed

theorem wheel_exemption_witness:
  "dispatched (onWheel exampleUtils (scrollingEditor (Vec 25 0)) (sessionState panning 20 120)
      exampleWheel) = []
   \<and> \<not> defaultPrevented (onWheel exampleUtils (scrollingEditor (Vec 25 0))
      (sessionState panning 20 120) exampleWheel)
   \<and> dispatched (onWheel exampleUtils (scrollingEditor (Vec 80 0)) (sessionState panning 20 120)
      exampleWheel) =
       [Wheel \<lparr>shiftKey = False, altKey = False, ctrlKey = False, metaKey = False,
               accelKey = False, name = wheel, point = Vec 10 20, delta = Vec 0 (- 3)\<rparr>]
   \<and> defaultPrevented (onWheel exampleUtils (scrollingEditor (Vec 80 0))
      (sessionState panning 20 120) exampleWheel)
   \<and> dispatched (onWheel exampleUtils (scrollingEditor (Vec 80 0)) (sessionState panning 20 120)
      (exampleWheel\<lparr>deltaY := 0\<rparr>)) = []
   \<and> defaultPrevented (onWheel exampleUtils (scrollingEditor (Vec 80 0))
      (sessionState panning 20 120) (exampleWheel\<lparr>deltaY := 0\<rparr>))"
proof -
  have f: "isFocused (scrollingEditor p)" for p
    by (simp add: scrollingEditor_def)
  show ?thesis
    using wheel_exemption [OF f, of "Vec 25 0" exampleUtils "sessionState panning 20 120"
        exampleWheel]
      wheel_exemption [OF f, of "Vec 80 0" exampleUtils "sessionState panning 20 120"
        exampleWheel]
      wheel_exemption [OF f, of "Vec 80 0" exampleUtils "sessionState panning 20 120"
        "exampleWheel\<lparr>deltaY := 0\<rparr>"]
    by (simp add: scrollingEditor_def exampleUtils_def exampleWheel_def MouseEvent.truncate_def)
qed

subsection \<open>Events for untracked and duplicate contacts\<close>

text \<open>
  Claim C1 holds for \<open>pointermove\<close> (\<open>onPointerMove_untracked\<close>) and for a release while
  the number of tracked contacts is not 2 (\<open>onPointerUp_untracked_other_size\<close>), but
  \<open>onPointerUp\<close> tests only \<open>activePointers.size === 2\<close>, not whether the released
  pointer is tracked. Evaluated here: contacts 1 and 2 start a session and pan; the
  release of pointer 3, which never started, resets the mode to undecided and queues a
  request, and the next animation frame dispatches a \<open>pinch_end\<close>, while both contacts
  stay tracked.
\<close>

theorem untracked_up_ends_session:
  "\<not> map_has (activePointers (sessionState panning 20 120)) (pointerId (pointerAt 3 5 0))
   \<and> runEvents exampleUtils (initialState (Vec 0 0))
     [(exampleEditor, PointerDown (pointerAt 1 0 0)),
      (exampleEditor, PointerDown (pointerAt 2 100 0)),
      (exampleEditor, PointerMove (pointerAt 1 20 0)),
      (exampleEditor, PointerMove (pointerAt 2 120 0))]
     = (sessionState panning 20 120,
        [pinchInfo exampleUtils (pointerAt 2 100 0) pinch_start (VecModel 50 0 (Num 1)) (Vec 0 0),
         pinchInfo exampleUtils (pointerAt 2 120 0) pinch (VecModel 70 0 (Num 1)) (Vec 10 0)])
   \<and> onPointerUp exampleUtils exampleEditor (sessionState panning 20 120) (pointerAt 3 5 0)
     = ((sessionState not_sure 20 120)
           \<lparr>frameRequests := [FrameRequest (Num 1) (pointerAt 3 5 0)]\<rparr>, [])
   \<and> onAnimationFrame exampleUtils ((sessionState not_sure 20 120)
           \<lparr>frameRequests := [FrameRequest (Num 1) (pointerAt 3 5 0)]\<rparr>)
     = (sessionState not_sure 20 120,
        [pinchInfo exampleUtils (pointerAt 3 5 0) pinch_end (VecModel 70 0 (Num 1)) (Vec 70 0)])"
proof -
  have "\<not> map_has (activePointers (sessionState panning 20 120)) (pointerId (pointerAt 3 5 0))"
    by (simp add: example_defs)
  moreover have "runEvents exampleUtils (initialState (Vec 0 0))
     [(exampleEditor, PointerDown (pointerAt 1 0 0)),
      (exampleEditor, PointerDown (pointerAt 2 100 0)),
      (exampleEditor, PointerMove (pointerAt 1 20 0)),
      (exampleEditor, PointerMove (pointerAt 2 120 0))]
     = (sessionState panning 20 120,
        [pinchInfo exampleUtils (pointerAt 2 100 0) pinch_start (VecModel 50 0 (Num 1)) (Vec 0 0),
         pinchInfo exampleUtils (pointerAt 2 120 0) pinch (VecModel 70 0 (Num 1)) (Vec 10 0)])"
    by (simp add: runEvents_Cons [OF step_down_first] runEvents_Cons [OF step_down_second]
        runEvents_Cons [OF step_move_undecided] runEvents_Cons [OF step_move_panning]
        del: runEvents.simps(2))
  moreover have "onPointerUp exampleUtils exampleEditor (sessionState panning 20 120)
      (pointerAt 3 5 0)
     = ((sessionState not_sure 20 120)
           \<lparr>frameRequests := [FrameRequest (Num 1) (pointerAt 3 5 0)]\<rparr>, [])"
    by (simp add: onPointerUp_def example_defs)
  moreover have "onAnimationFrame exampleUtils ((sessionState not_sure 20 120)
           \<lparr>frameRequests := [FrameRequest (Num 1) (pointerAt 3 5 0)]\<rparr>)
     = (sessionState not_sure 20 120,
        [pinchInfo exampleUtils (pointerAt 3 5 0) pinch_end (VecModel 70 0 (Num 1)) (Vec 70 0)])"
    by (simp add: onAnimationFrame_def runFrameRequest_def sessionState_def)
  ultimately show ?thesis by blast
qed

text \<open>
  Claim C9, as stated, fails: \<open>onPointerDown\<close> tests \<open>activePointers.size === 2\<close> after the
  \<open>set\<close>, so a second \<open>pointerdown\<close> of contact 1 during a zooming session of contacts 1
  and 2 starts the session anew (mode undecided, new initial distance and centroid)
  and dispatches another \<open>pinch_start\<close>.
\<close>

theorem duplicate_start_counterexample:
  "map_has (activePointers (sessionState zooming 0 150)) (pointerId (pointerAt 1 0 0))
   \<and> fst (runEvents exampleUtils (initialState (Vec 0 0))
        [(exampleEditor, PointerDown (pointerAt 1 0 0)),
         (exampleEditor, PointerDown (pointerAt 2 100 0)),
         (exampleEditor, PointerMove (pointerAt 2 150 0))]) = sessionState zooming 0 150
   \<and> onPointerDown exampleUtils exampleEditor (sessionState zooming 0 150) (pointerAt 1 0 0)
      = ((sessionState not_sure 0 150)\<lparr>initDistanceBetweenFingers := 150,
           initPointBetweenFingers := Vec 75 0\<rparr>,
         [pinchInfo exampleUtils (pointerAt 1 0 0) pinch_start (VecModel 75 0 (Num 1)) (Vec 0 0)])"
proof -
  have "map_has (activePointers (sessionState zooming 0 150)) (pointerId (pointerAt 1 0 0))"
    by (simp add: example_defs)
  moreover have "fst (runEvents exampleUtils (initialState (Vec 0 0))
        [(exampleEditor, PointerDown (pointerAt 1 0 0)),
         (exampleEditor, PointerDown (pointerAt 2 100 0)),
         (exampleEditor, PointerMove (pointerAt 2 150 0))]) = sessionState zooming 0 150"
    by (simp add: runEvents_Cons [OF step_down_first] runEvents_Cons [OF step_down_second]
        runEvents_Cons [OF step_move_zooming] del: runEvents.simps(2))
  moreover have "onPointerDown exampleUtils exampleEditor (sessionState zooming 0 150)
      (pointerAt 1 0 0)
      = ((sessionState not_sure 0 150)\<lparr>initDistanceBetweenFingers := 150,
           initPointBetweenFingers := Vec 75 0\<rparr>,
         [pinchInfo exampleUtils (pointerAt 1 0 0) pinch_start (VecModel 75 0 (Num 1)) (Vec 0 0)])"
    by (simp add: onPointerDown_def example_defs)
  ultimately show ?thesis by blast
qed

text \<open>
  Claim C9, amended. A \<open>pointerdown\<close> for a tracked identity replaces that contact's
  stored event in place (same keys, same order). If the number of tracked contacts is
  not 2, nothing else changes and nothing is dispatched. If it is 2, the session is
  initialised as for the arrival of a second contact: mode undecided, both centroids at
  the midpoint, \<open>initDistance\<close> the distance of the two contacts, \<open>initZoom\<close> the
  editor's zoom level, and one \<open>pinch_start\<close> is dispatched.
\<close>

theorem duplicate_start:
  assumes "map_has (activePointers s) (pointerId e)"
  shows "activePointers (fst (onPointerDown u editor s e))
           = map_set (activePointers s) (pointerId e) e
     \<and> map fst (activePointers (fst (onPointerDown u editor s e))) = map fst (activePointers s)
     \<and> map_of (activePointers (fst (onPointerDown u editor s e)))
           = (map_of (activePointers s))(pointerId e \<mapsto> e)
     \<and> (map_size (activePointers s) \<noteq> 2 \<longrightarrow>
          onPointerDown u editor s e
            = (s\<lparr>activePointers := map_set (activePointers s) (pointerId e) e\<rparr>, []))
     \<and> (map_size (activePointers s) = 2 \<longrightarrow>
          onPointerDown u editor s e =
            (let ps = map_values (map_set (activePointers s) (pointerId e) e);
                 center = getPointerCenter (ps ! 0) (ps ! 1)
             in (s\<lparr>activePointers := map_set (activePointers s) (pointerId e) e,
                    pinchState := not_sure,
                    prevPointBetweenFingers := center,
                    initPointBetweenFingers := center,
                    initDistanceBetweenFingers := getPointerDistance (ps ! 0) (ps ! 1),
                    initZoom := getZoomLevel editor\<rparr>,
                 [pinchInfo u e pinch_start
                    (VecModel (vx center) (vy center) (Num (getZoomLevel editor)))
                    (Vec 0 0)])))"
  using assms
  by (simp add: onPointerDown_def map_size_map_set keys_map_set values_map_set_tracked Let_def)

theorem duplicate_start_witness:
  "onPointerDown exampleUtils exampleEditor
      ((sessionState zooming 0 150)\<lparr>activePointers := [(1, pointerAt 1 0 0)]\<rparr>) (pointerAt 1 7 0)
     = ((sessionState zooming 0 150)\<lparr>activePointers := [(1, pointerAt 1 7 0)]\<rparr>, [])
   \<and> snd (onPointerDown exampleUtils exampleEditor (sessionState zooming 0 150) (pointerAt 1 0 0))
     = [pinchInfo exampleUtils (pointerAt 1 0 0) pinch_start (VecModel 75 0 (Num 1)) (Vec 0 0)]"
proof -
  have t1: "map_has (activePointers ((sessionState zooming 0 150)
      \<lparr>activePointers := [(1, pointerAt 1 0 0)]\<rparr>)) (pointerId (pointerAt 1 7 0))"
    by (simp add: map_has_def pointerAt_def)
  have t2: "map_has (activePointers (sessionState zooming 0 150)) (pointerId (pointerAt 1 0 0))"
    by (simp add: sessionState_def map_has_def pointerAt_def)
  show ?thesis
    using duplicate_start [OF t1, of exampleUtils exampleEditor]
      duplicate_start [OF t2, of exampleUtils exampleEditor]
    by (simp add: example_defs)
qed

subsection \<open>Sessions without a move\<close>

text \<open>
  Claim C10, as stated, fails in two ways, both with zoom speed 1. In the first session
  after mounting, without any move, two contacts at the same position give
  \<open>initDistance = 0\<close>, so the scale is \<open>0 / 0\<close> and the \<open>pinch_end\<close> reports NaN, not 0. And
  when a session with an update step (distance 150) comes first, the first session
  without a move (contacts 100 apart) reports \<open>1 * (150 / 100) ** 1 = 1.5\<close>, not 0.
\<close>

theorem moveless_session_counterexample:
  "runEvents exampleUtils (initialState (Vec 0 0))
     [(exampleEditor, PointerDown (pointerAt 1 30 40)),
      (exampleEditor, PointerDown (pointerAt 2 30 40)),
      (exampleEditor, PointerUp (pointerAt 2 30 40)),
      (exampleEditor, AnimationFrame)]
   = ((initialState (Vec 30 40))\<lparr>activePointers := [(1, pointerAt 1 30 40)],
         initDistanceBetweenFingers := 0\<rparr>,
      [pinchInfo exampleUtils (pointerAt 2 30 40) pinch_start (VecModel 30 40 (Num 1)) (Vec 0 0),
       pinchInfo exampleUtils (pointerAt 2 30 40) pinch_end (VecModel 30 40 NaN) (Vec 30 40)])
   \<and> snd (runEvents exampleUtils (initialState (Vec 0 0))
     [(exampleEditor, PointerDown (pointerAt 1 0 0)),
      (exampleEditor, PointerDown (pointerAt 2 100 0)),
      (exampleEditor, PointerMove (pointerAt 2 150 0)),
      (exampleEditor, PointerUp (pointerAt 2 150 0)),
      (exampleEditor, AnimationFrame),
      (exampleEditor, PointerDown (pointerAt 2 100 0)),
      (exampleEditor, PointerUp (pointerAt 2 100 0)),
      (exampleEditor, AnimationFrame)])
   = [pinchInfo exampleUtils (pointerAt 2 100 0) pinch_start (VecModel 50 0 (Num 1)) (Vec 0 0),
      pinchInfo exampleUtils (pointerAt 2 150 0) pinch (VecModel 75 0 (Num (3 / 2))) (Vec 25 0),
      pinchInfo exampleUtils (pointerAt 2 150 0) pinch_end (VecModel 75 0 (Num (3 / 2)))
        (Vec 75 0),
      pinchInfo exampleUtils (pointerAt 2 100 0) pinch_start (VecModel 50 0 (Num 1)) (Vec 0 0),
      pinchInfo exampleUtils (pointerAt 2 100 0) pinch_end (VecModel 50 0 (Num (3 / 2)))
        (Vec 50 0)]
   \<and> 0 < zoomSpeed exampleEditor"
proof -
  have s1: "handleEvent exampleUtils (initialState (Vec 0 0))
        (exampleEditor, PointerDown (pointerAt 1 30 40))
      = ((initialState (Vec 0 0))\<lparr>activePointers := [(1, pointerAt 1 30 40)]\<rparr>, [])"
    by (simp add: handleEvent_def onPointerDown_def initialState_def map_size_def pointerAt_def)
  have s2: "handleEvent exampleUtils
        ((initialState (Vec 0 0))\<lparr>activePointers := [(1, pointerAt 1 30 40)]\<rparr>)
        (exampleEditor, PointerDown (pointerAt 2 30 40))
      = ((initialState (Vec 30 40))
           \<lparr>activePointers := [(1, pointerAt 1 30 40), (2, pointerAt 2 30 40)],
            initDistanceBetweenFingers := 0\<rparr>,
         [pinchInfo exampleUtils (pointerAt 2 30 40) pinch_start (VecModel 30 40 (Num 1))
            (Vec 0 0)])"
    by (simp add: handleEvent_def onPointerDown_def initialState_def example_defs)
  have s3: "handleEvent exampleUtils
        ((initialState (Vec 30 40))
           \<lparr>activePointers := [(1, pointerAt 1 30 40), (2, pointerAt 2 30 40)],
            initDistanceBetweenFingers := 0\<rparr>)
        (exampleEditor, PointerUp (pointerAt 2 30 40))
      = ((initialState (Vec 30 40))
           \<lparr>activePointers := [(1, pointerAt 1 30 40)],
            initDistanceBetweenFingers := 0,
            frameRequests := [FrameRequest NaN (pointerAt 2 30 40)]\<rparr>, [])"
    by (simp add: handleEvent_def onPointerUp_def initialState_def example_defs)
  have s4: "handleEvent exampleUtils
        ((initialState (Vec 30 40))
           \<lparr>activePointers := [(1, pointerAt 1 30 40)],
            initDistanceBetweenFingers := 0,
            frameRequests := [FrameRequest NaN (pointerAt 2 30 40)]\<rparr>)
        (exampleEditor, AnimationFrame)
      = ((initialState (Vec 30 40))\<lparr>activePointers := [(1, pointerAt 1 30 40)],
            initDistanceBetweenFingers := 0\<rparr>,
         [pinchInfo exampleUtils (pointerAt 2 30 40) pinch_end (VecModel 30 40 NaN)
            (Vec 30 40)])"
    by (simp add: handleEvent_def onAnimationFrame_def runFrameRequest_def initialState_def)
  have z: "0 < zoomSpeed exampleEditor"
    by (simp add: exampleEditor_def)
  show ?thesis
    by (simp add: runEvents_Cons [OF s1] runEvents_Cons [OF s2] runEvents_Cons [OF s3]
        runEvents_Cons [OF s4] runEvents_Cons [OF step_down_first]
        runEvents_Cons [OF step_down_second] runEvents_Cons [OF step_move_zooming]
        runEvents_Cons [OF step_up_zooming] runEvents_Cons [OF step_frame_after_zooming]
        runEvents_Cons [OF step_down_again] runEvents_Cons [OF step_up_moveless]
        runEvents_Cons [OF step_frame_after_moveless] z del: runEvents.simps(2))
qed

text \<open>
  Claim C10, amended. \<open>onPointerDown\<close> never writes \<open>currDistanceBetweenFingers\<close>, which
  only an update step writes. So after any sequence of events without an update step
  (moves of untracked contacts, or while the number of tracked contacts is not 2, are
  allowed), run from any state \<open>s0\<close>, the stored distance is still that of \<open>s0\<close>, and a
  release at two tracked contacts queues the zoom
  \<open>initZoom * (currDistance s0 / initDistance) ** zoomSpeed\<close>. The stored distance is 0 when
  the hook is mounted; as long as it is 0, the queued zoom is 0 when the zoom speed is
  positive and \<open>initDistance\<close> is not 0 (the two contacts are at different positions),
  and it is NaN when \<open>initDistance\<close> is 0 (coincident contacts) and the zoom speed is
  not 0.
\<close>

theorem moveless_session_zoom:
  assumes "noUpdateStep u s0 xs"
    and "s = fst (runEvents u s0 xs)"
    and "map_size (activePointers s) = 2"
  shows "currDistanceBetweenFingers (fst (onPointerDown u editor' s' e'))
           = currDistanceBetweenFingers s'
     \<and> currDistanceBetweenFingers s = currDistanceBetweenFingers s0
     \<and> frameRequests (fst (onPointerUp u editor s e)) =
         frameRequests s @
           [FrameRequest
              (js_mul (initZoom s)
                 (js_pow (js_div (currDistanceBetweenFingers s0) (initDistanceBetweenFingers s))
                    (zoomSpeed editor))) e]
     \<and> currDistanceBetweenFingers (initialState newVec) = 0
     \<and> (currDistanceBetweenFingers s0 = 0 \<and> initDistanceBetweenFingers s \<noteq> 0
          \<and> 0 < zoomSpeed editor \<longrightarrow>
          js_mul (initZoom s)
            (js_pow (js_div (currDistanceBetweenFingers s0) (initDistanceBetweenFingers s))
               (zoomSpeed editor)) = Num 0)
     \<and> (currDistanceBetweenFingers s0 = 0 \<and> initDistanceBetweenFingers s = 0
          \<and> zoomSpeed editor \<noteq> 0 \<longrightarrow>
          js_mul (initZoom s)
            (js_pow (js_div (currDistanceBetweenFingers s0) (initDistanceBetweenFingers s))
               (zoomSpeed editor)) = NaN)"
proof -
  have a: "currDistanceBetweenFingers (fst (onPointerDown u editor' s' e'))
           = currDistanceBetweenFingers s'"
    by (simp add: onPointerDown_def Let_def)
  have b: "currDistanceBetweenFingers s = currDistanceBetweenFingers s0"
    unfolding assms(2) by (rule runEvents_keeps_currDistance [OF assms(1)])
  have c: "frameRequests (fst (onPointerUp u editor s e)) =
         frameRequests s @
           [FrameRequest
              (js_mul (initZoom s)
                 (js_pow (js_div (currDistanceBetweenFingers s0) (initDistanceBetweenFingers s))
                    (zoomSpeed editor))) e]"
    using assms(3) b by (simp add: onPointerUp_def Let_def)
  have i: "currDistanceBetweenFingers (initialState newVec) = 0"
    by (simp add: initialState_def)
  have d: "currDistanceBetweenFingers s0 = 0 \<and> initDistanceBetweenFingers s \<noteq> 0
          \<and> 0 < zoomSpeed editor \<longrightarrow>
          js_mul (initZoom s)
            (js_pow (js_div (currDistanceBetweenFingers s0) (initDistanceBetweenFingers s))
               (zoomSpeed editor)) = Num 0"
    by (simp add: js_mul_def js_pow_def js_div_def)
  have n: "currDistanceBetweenFingers s0 = 0 \<and> initDistanceBetweenFingers s = 0
          \<and> zoomSpeed editor \<noteq> 0 \<longrightarrow>
          js_mul (initZoom s)
            (js_pow (js_div (currDistanceBetweenFingers s0) (initDistanceBetweenFingers s))
               (zoomSpeed editor)) = NaN"
    by (simp add: js_mul_def js_pow_def js_div_def)
  from a b c i d n show ?thesis by blast
qed

theorem moveless_session_zoom_witness:
  "frameRequests (fst (onPointerUp exampleUtils exampleEditor
       ((sessionState not_sure 0 100)\<lparr>currDistanceBetweenFingers := 0\<rparr>) (pointerAt 2 100 0)))
     = [FrameRequest (Num 0) (pointerAt 2 100 0)]
   \<and> frameRequests (fst (onPointerUp exampleUtils exampleEditor
       ((sessionState not_sure 0 100)
          \<lparr>currDistanceBetweenFingers := 0, initDistanceBetweenFingers := 0\<rparr>)
       (pointerAt 2 100 0)))
     = [FrameRequest NaN (pointerAt 2 100 0)]"
proof -
  let ?xs = "[(exampleEditor, PointerMove (pointerAt 9 5 5)),
      (exampleEditor, PointerDown (pointerAt 1 0 0)),
      (exampleEditor, PointerMove (pointerAt 1 0 0)),
      (exampleEditor, PointerDown (pointerAt 2 100 0))]"
  let ?s = "(sessionState not_sure 0 100)\<lparr>currDistanceBetweenFingers := 0\<rparr>"
  let ?t = "(sessionState not_sure 0 100)
      \<lparr>currDistanceBetweenFingers := 0, initDistanceBetweenFingers := 0\<rparr>"
  have moveless: "noUpdateStep exampleUtils (initialState (Vec 0 0)) ?xs"
    by (simp only: noUpdateStep.simps step_move_untracked step_down_first step_move_single
        step_down_second fst_conv snd_conv)
      (simp add: isUpdateStep_def initialState_def map_has_def map_size_def pointerAt_def)
  have reach: "?s = fst (runEvents exampleUtils (initialState (Vec 0 0)) ?xs)"
    by (simp add: runEvents_Cons [OF step_move_untracked] runEvents_Cons [OF step_down_first]
        runEvents_Cons [OF step_move_single] runEvents_Cons [OF step_down_second]
        del: runEvents.simps(2))
  have two: "map_size (activePointers ?s) = 2"
    by (simp add: sessionState_def map_size_def)
  have none: "noUpdateStep exampleUtils ?t ([] :: ((nat, unit, unit) Editor \<times> DomEvent) list)"
    by simp
  have here: "?t = fst (runEvents exampleUtils ?t
      ([] :: ((nat, unit, unit) Editor \<times> DomEvent) list))"
    by simp
  have two': "map_size (activePointers ?t) = 2"
    by (simp add: sessionState_def map_size_def)
  show ?thesis
    using moveless_session_zoom [OF moveless reach two,
        where editor = exampleEditor and e = "pointerAt 2 100 0"
          and editor' = exampleEditor and s' = "initialState (Vec 0 0)"
          and e' = "pointerAt 1 0 0" and newVec = "Vec 0 0"]
      moveless_session_zoom [OF none here two',
        where editor = exampleEditor and e = "pointerAt 2 100 0"
          and editor' = exampleEditor and s' = "initialState (Vec 0 0)"
          and e' = "pointerAt 1 0 0" and newVec = "Vec 0 0"]
    by (simp add: sessionState_def exampleEditor_def)
qed

end
